theory Spec2Isabelle
  imports Main
begin

section \<open>Values crossing the library boundary\<close>

text \<open>
  The notebook \<^verbatim>\<open>docs/docs/how_to/qa_streaming.ipynb\<close> is glue code around a
  retrieval chain. The values it handles are Python objects: document records, the
  dictionaries streamed by \<^verbatim>\<open>rag_chain.stream\<close> and the event dictionaries streamed
  by \<^verbatim>\<open>rag_chain.astream_events\<close>.
\<close>

text \<open>
  \<^verbatim>\<open>Document(page_content='...', metadata={'source': '...'})\<close>, as printed in the
  recorded output of the notebook.
\<close>

record document =
  page_content :: string
  metadata :: "(string \<times> string) list"

text \<open>
  The Python values found under the keys of a streamed chunk, with \<^verbatim>\<open>None\<close> for what
  \<^verbatim>\<open>dict.get\<close> returns on a missing key.
\<close>

datatype pyval = PNone | PStr string | PDocs "document list"

text \<open>Python truth value testing: \<^verbatim>\<open>None\<close>, \<^verbatim>\<open>''\<close> and \<^verbatim>\<open>[]\<close> are false.\<close>

fun truthy :: "pyval \<Rightarrow> bool" where
  "truthy PNone = False"
| "truthy (PStr s) = (s \<noteq> [])"
| "truthy (PDocs ds) = (ds \<noteq> [])"

text \<open>
  What an f-string writes for \<^verbatim>\<open>{v}\<close>. A string is written as it is. The text of a
  list of documents is produced by the library's \<^verbatim>\<open>Document.__repr__\<close>, which is not
  part of the notebook: it is the parameter \<open>docs_str\<close>.
\<close>

fun py_str :: "(document list \<Rightarrow> string) \<Rightarrow> pyval \<Rightarrow> string" where
  "py_str docs_str PNone = ''None''"
| "py_str docs_str (PStr s) = s"
| "py_str docs_str (PDocs ds) = docs_str ds"

text \<open>A streamed chunk is a dictionary; insertion order is kept, as Python does.\<close>

type_synonym chunk = "(string \<times> pyval) list"

definition dict_keys :: "chunk \<Rightarrow> string list" where
  "dict_keys c = map fst c"

text \<open>\<^verbatim>\<open>chunk.get(key)\<close>: the value, or \<^verbatim>\<open>None\<close> when the key is missing.\<close>

definition dict_get :: "chunk \<Rightarrow> string \<Rightarrow> pyval" where
  "dict_get c k = (case map_of c k of None \<Rightarrow> PNone | Some v \<Rightarrow> v)"

text \<open>
  The payloads found under the keys of an event's \<^verbatim>\<open>data\<close> dictionary in the recorded
  output: a message chunk with its \<^verbatim>\<open>content\<close>, a \<^verbatim>\<open>{'query': ...}\<close> input and a
  \<^verbatim>\<open>{'documents': [...]}\<close> output.
\<close>

datatype payload = MessageChunk string | Query string | Documents "document list"

text \<open>
  A streamed event, with the keys of the recorded output
  \<^verbatim>\<open>{'event': ..., 'name': ..., 'run_id': ..., 'tags': [...], 'metadata': {}, 'data': {...}}\<close>.
\<close>

record event =
  event :: string
  name :: string
  run_id :: string
  tags :: "string list"
  event_metadata :: "(string \<times> string) list"
  data :: "(string \<times> payload) list"

section \<open>Exceptions and iteration\<close>

text \<open>
  The exceptions of the model: a missing dictionary key, a missing attribute, a value
  that cannot be stored, and any exception raised inside the library (network,
  credentials, embedding service, the prompt of \<^verbatim>\<open>getpass\<close>), kept by its message.
\<close>

datatype error = KeyError string | AttributeError string | ValueError string | LibraryError string

text \<open>
  A run of a generator: the items it yields, then either a normal end (\<open>None\<close>) or an
  exception (\<open>Some e\<close>).
\<close>

type_synonym 'a pystream = "'a list \<times> error option"

text \<open>
  \<^verbatim>\<open>for x in stream: body\<close> with no \<^verbatim>\<open>try\<close> around it, which is how every loop of the
  notebook is written. The result is what was printed and how the loop ended: an
  exception of the body stops the loop at once, an exception of the generator stops it
  after the items already yielded.
\<close>

fun for_loop :: "('a \<Rightarrow> error + 'o list) \<Rightarrow> 'a list \<Rightarrow> error option \<Rightarrow> 'o list \<times> error option" where
  "for_loop body [] fin = ([], fin)"
| "for_loop body (x # xs) fin =
     (case body x of
        Inl e \<Rightarrow> ([], Some e)
      | Inr out \<Rightarrow> (case for_loop body xs fin of (rest, r) \<Rightarrow> (out @ rest, r)))"

section \<open>Streaming final outputs\<close>

text \<open>
  \<^verbatim>\<open>
  for chunk in rag_chain.stream({"input": "What is Task Decomposition?"}):
      print(chunk)
  \<close>
  The output is the list of the dictionaries handed to \<^verbatim>\<open>print\<close>.
\<close>

definition print_chunk :: "chunk \<Rightarrow> error + chunk list" where
  "print_chunk c = Inr [c]"

definition print_loop :: "chunk pystream \<Rightarrow> chunk list \<times> error option" where
  "print_loop s = for_loop print_chunk (fst s) (snd s)"

text \<open>
  \<^verbatim>\<open>
  for chunk in rag_chain.stream({"input": "What is Task Decomposition?"}):
      if answer_chunk := chunk.get("answer"):
          print(f"{answer_chunk}|", end="")
  \<close>
  The output is the list of the strings written, one per call of \<^verbatim>\<open>print\<close>.
\<close>

definition print_answer :: "(document list \<Rightarrow> string) \<Rightarrow> chunk \<Rightarrow> error + string list" where
  "print_answer docs_str c =
     (let answer_chunk = dict_get c ''answer'' in
      if truthy answer_chunk then Inr [py_str docs_str answer_chunk @ ''|''] else Inr [])"

definition answer_loop :: "(document list \<Rightarrow> string) \<Rightarrow> chunk pystream \<Rightarrow> string list \<times> error option" where
  "answer_loop docs_str s = for_loop (print_answer docs_str) (fst s) (snd s)"

text \<open>
  Modelled from the spec: \<^verbatim>\<open>Runnable.pick\<close> belongs to the library and is not among the
  sources. The notebook says of it that it "selects only the desired key": each chunk
  of the underlying stream that has the key contributes the value under it, empty
  values included (the output recorded for the cell starts with \<^verbatim>\<open>|\<close>, an empty first
  fragment).
\<close>

definition pick :: "string \<Rightarrow> chunk list \<Rightarrow> pyval list" where
  "pick k cs = filter (\<lambda>v. v \<noteq> PNone) (map (\<lambda>c. dict_get c k) cs)"

text \<open>
  \<^verbatim>\<open>
  chain = rag_chain.pick("answer")
  for chunk in chain.stream({"input": "What is Task Decomposition?"}):
      print(f"{chunk}|", end="")
  \<close>
\<close>

definition print_picked :: "(document list \<Rightarrow> string) \<Rightarrow> pyval \<Rightarrow> error + string list" where
  "print_picked docs_str v = Inr [py_str docs_str v @ ''|'']"

definition pick_loop :: "(document list \<Rightarrow> string) \<Rightarrow> chunk pystream \<Rightarrow> string list \<times> error option" where
  "pick_loop docs_str s = for_loop (print_picked docs_str) (pick ''answer'' (fst s)) (snd s)"

text \<open>
  What a loop wrote for one fragment is the fragment followed by the separator
  \<^verbatim>\<open>|\<close>; \<open>fragment\<close> takes the separator off again.
\<close>

definition fragment :: "string \<Rightarrow> string" where
  "fragment p = butlast p"

text \<open>
  The shape of a chunk of the retrieval chain for the query \<open>q\<close>: every key is one of
  \<^verbatim>\<open>input\<close>, \<^verbatim>\<open>context\<close>, \<^verbatim>\<open>answer\<close>, with the query, a list of documents and a text
  under them.
\<close>

fun entry_ok :: "string \<Rightarrow> string \<times> pyval \<Rightarrow> bool" where
  "entry_ok q (k, PStr s) = ((k = ''input'' \<and> s = q) \<or> k = ''answer'')"
| "entry_ok q (k, PDocs ds) = (k = ''context'')"
| "entry_ok q (k, PNone) = False"

definition chunk_ok :: "string \<Rightarrow> chunk \<Rightarrow> bool" where
  "chunk_ok q c = list_all (entry_ok q) c"

text \<open>The weaker shape the consumers of the answer rely on: the answer, when present, is text.\<close>

fun is_text :: "pyval \<Rightarrow> bool" where
  "is_text PNone = True"
| "is_text (PStr s) = True"
| "is_text (PDocs ds) = False"

definition answer_is_text :: "chunk \<Rightarrow> bool" where
  "answer_is_text c = is_text (dict_get c ''answer'')"

section \<open>Streaming intermediate steps\<close>

text \<open>
  \<^verbatim>\<open>
  async for event in rag_chain.astream_events({...}, version="v1"):
      if (
          event["event"] == "on_chat_model_stream"
          and "contextualize_q_llm" in event["tags"]
      ):
          ai_message_chunk = event["data"]["chunk"]
          print(f"{ai_message_chunk.content}|", end="")
  \<close>
  \<^verbatim>\<open>event["data"]["chunk"]\<close> raises \<^verbatim>\<open>KeyError\<close> when the key is missing, and
  \<^verbatim>\<open>.content\<close> raises \<^verbatim>\<open>AttributeError\<close> on a payload that is not a message chunk.
\<close>

definition print_contextualized :: "event \<Rightarrow> error + string list" where
  "print_contextualized e =
     (if event e = ''on_chat_model_stream'' \<and> ''contextualize_q_llm'' \<in> set (tags e) then
        (case map_of (data e) ''chunk'' of
           None \<Rightarrow> Inl (KeyError ''chunk'')
         | Some (MessageChunk content) \<Rightarrow> Inr [content @ ''|'']
         | Some (Query q) \<Rightarrow> Inl (AttributeError ''content'')
         | Some (Documents ds) \<Rightarrow> Inl (AttributeError ''content''))
      else Inr [])"

definition contextualize_loop :: "event pystream \<Rightarrow> string list \<times> error option" where
  "contextualize_loop s = for_loop print_contextualized (fst s) (snd s)"

text \<open>
  \<^verbatim>\<open>
  async for event in rag_chain.astream_events({...}, version="v1"):
      if event["name"] == "Retriever":
          print(event)
          print()
  \<close>
  The output is the list of the lines written: an event, or the empty line of
  \<^verbatim>\<open>print()\<close>.
\<close>

datatype line = Printed event | Blank

definition print_retriever :: "event \<Rightarrow> error + line list" where
  "print_retriever e = (if name e = ''Retriever'' then Inr [Printed e, Blank] else Inr [])"

definition retriever_loop :: "event pystream \<Rightarrow> line list \<times> error option" where
  "retriever_loop s = for_loop print_retriever (fst s) (snd s)"

text \<open>The events the first loop selects, and what it needs of them to read the content.\<close>

definition selected :: "event \<Rightarrow> bool" where
  "selected e = (event e = ''on_chat_model_stream'' \<and> ''contextualize_q_llm'' \<in> set (tags e))"

fun chunk_content :: "event \<Rightarrow> string option" where
  "chunk_content e =
     (case map_of (data e) ''chunk'' of
        Some (MessageChunk content) \<Rightarrow> Some content
      | _ \<Rightarrow> None)"

definition carries_chunk :: "event \<Rightarrow> bool" where
  "carries_chunk e = (if selected e then chunk_content e \<noteq> None else True)"

section \<open>The loops of the notebook\<close>

text \<open>
  The iteration statements of the code cells, in the order of the cells: the cell's
  execution count, the statement (\<^verbatim>\<open>for\<close> or \<^verbatim>\<open>async for\<close>) and the call it iterates
  over.
\<close>

datatype loop_kind = For | AsyncFor

record loop_site =
  cell :: nat
  kind :: loop_kind
  iterable :: string

definition notebook_loops :: "loop_site list" where
  "notebook_loops =
     [\<lparr>cell = 3, kind = For, iterable = ''rag_chain.stream''\<rparr>,
      \<lparr>cell = 4, kind = For, iterable = ''rag_chain.stream''\<rparr>,
      \<lparr>cell = 5, kind = For, iterable = ''chain.stream''\<rparr>,
      \<lparr>cell = 7, kind = AsyncFor, iterable = ''rag_chain.astream_events''\<rparr>,
      \<lparr>cell = 8, kind = AsyncFor, iterable = ''rag_chain.astream_events''\<rparr>]"

definition loops_of :: "loop_kind \<Rightarrow> loop_site list" where
  "loops_of k = filter (\<lambda>l. kind l = k) notebook_loops"

section \<open>Environment variables\<close>

text \<open>
  \<^verbatim>\<open>os.environ\<close> is a map from names to values.
\<close>

type_synonym environ = "string \<rightharpoonup> string"

text \<open>
  \<^verbatim>\<open>os.environ[k] = v\<close>. The assignment raises \<^verbatim>\<open>ValueError\<close>, and stores nothing, when
  the name or the value holds a null byte, and when the name is empty or holds \<^verbatim>\<open>=\<close>;
  otherwise the value is stored under the name.
\<close>

definition environ_setitem :: "string \<Rightarrow> string \<Rightarrow> environ \<Rightarrow> error + environ" where
  "environ_setitem k v env =
     (if CHR 0x00 \<in> set k \<or> CHR 0x00 \<in> set v then Inl (ValueError ''embedded null byte'')
      else if k = [] \<or> CHR ''='' \<in> set k then Inl (ValueError ''illegal environment variable name'')
      else Inr (env(k \<mapsto> v)))"

text \<open>
  \<^verbatim>\<open>
  os.environ["OPENAI_API_KEY"] = getpass.getpass()
  \<close>
  The call \<^verbatim>\<open>getpass.getpass()\<close> is the argument \<open>getpass\<close>: the value typed at the prompt,
  or the exception the prompt raises. The right-hand side is evaluated first. The
  result of a cell is the environment it leaves and the exception it ended with, if
  any.
\<close>

definition set_openai_key :: "error + string \<Rightarrow> environ \<Rightarrow> environ \<times> error option" where
  "set_openai_key getpass env =
     (case getpass of
        Inl e \<Rightarrow> (env, Some e)
      | Inr typed \<Rightarrow>
          (case environ_setitem ''OPENAI_API_KEY'' typed env of
             Inl e \<Rightarrow> (env, Some e)
           | Inr env1 \<Rightarrow> (env1, None)))"

text \<open>
  \<^verbatim>\<open>
  os.environ["LANGCHAIN_TRACING_V2"] = "true"
  os.environ["LANGCHAIN_API_KEY"] = getpass.getpass()
  \<close>
  The first assignment is done before the prompt is shown: it stays when the second
  statement raises.
\<close>

definition set_langsmith :: "error + string \<Rightarrow> environ \<Rightarrow> environ \<times> error option" where
  "set_langsmith getpass env =
     (case environ_setitem ''LANGCHAIN_TRACING_V2'' ''true'' env of
        Inl e \<Rightarrow> (env, Some e)
      | Inr env1 \<Rightarrow>
          (case getpass of
             Inl e \<Rightarrow> (env1, Some e)
           | Inr typed \<Rightarrow>
               (case environ_setitem ''LANGCHAIN_API_KEY'' typed env1 of
                  Inl e \<Rightarrow> (env1, Some e)
                | Inr env2 \<Rightarrow> (env2, None))))"

text \<open>
  Both setup cells, run in the order of the notebook; the run stops at the first cell
  that ends with an exception.
\<close>

definition setup_environment :: "error + string \<Rightarrow> error + string \<Rightarrow> environ \<Rightarrow> environ \<times> error option" where
  "setup_environment getpass1 getpass2 env =
     (case set_openai_key getpass1 env of
        (env1, Some e) \<Rightarrow> (env1, Some e)
      | (env1, None) \<Rightarrow> set_langsmith getpass2 env1)"

text \<open>The names on the left of the three assignments.\<close>

definition environment_variables :: "string list" where
  "environment_variables = [''OPENAI_API_KEY'', ''LANGCHAIN_TRACING_V2'', ''LANGCHAIN_API_KEY'']"

section \<open>Loading, splitting and indexing\<close>

text \<open>
  \<^verbatim>\<open>web_paths=("https://lilianweng.github.io/posts/2023-06-23-agent/",)\<close>
\<close>

definition web_paths :: "string list" where
  "web_paths = [''https://lilianweng.github.io/posts/2023-06-23-agent/'']"

text \<open>
  \<^verbatim>\<open>
  loader = WebBaseLoader(web_paths=(...), bs_kwargs=...)
  docs = loader.load()
  text_splitter = RecursiveCharacterTextSplitter(chunk_size=1000, chunk_overlap=200)
  splits = text_splitter.split_documents(docs)
  vectorstore = Chroma.from_documents(documents=splits, embedding=OpenAIEmbeddings())
  retriever = vectorstore.as_retriever()
  \<close>
  The five library calls are parameters; each may raise. The argument
  \<^verbatim>\<open>OpenAIEmbeddings()\<close> is evaluated before the call of \<^verbatim>\<open>from_documents\<close>.
\<close>

definition build_retriever ::
  "(string list \<Rightarrow> error + document list) \<Rightarrow> (document list \<Rightarrow> error + document list) \<Rightarrow>
   (unit \<Rightarrow> error + 'emb) \<Rightarrow> (document list \<Rightarrow> 'emb \<Rightarrow> error + 'vs) \<Rightarrow> ('vs \<Rightarrow> error + 'r) \<Rightarrow>
   error + 'r" where
  "build_retriever loader_load split_documents openai_embeddings from_documents as_retriever =
     (case loader_load web_paths of
        Inl e \<Rightarrow> Inl e
      | Inr docs \<Rightarrow>
          (case split_documents docs of
             Inl e \<Rightarrow> Inl e
           | Inr splits \<Rightarrow>
               (case openai_embeddings () of
                  Inl e \<Rightarrow> Inl e
                | Inr embedding \<Rightarrow>
                    (case from_documents splits embedding of
                       Inl e \<Rightarrow> Inl e
                     | Inr vectorstore \<Rightarrow> as_retriever vectorstore))))"

section \<open>The library, as far as the specification describes it\<close>

text \<open>
  Modelled from the spec: the loader \<^verbatim>\<open>WebBaseLoader.load\<close> is not among the sources.
  The specification describes a document as "page text plus a source-URL metadata
  field, produced by the external loader": one document for each page, with the text
  fetched from it (\<open>fetch\<close> may fail, a network error) and the page's URL as its source.
\<close>

fun loader_load :: "(string \<Rightarrow> error + string) \<Rightarrow> string list \<Rightarrow> error + document list" where
  "loader_load fetch [] = Inr []"
| "loader_load fetch (p # ps) =
     (case fetch p of
        Inl e \<Rightarrow> Inl e
      | Inr page \<Rightarrow>
          (case loader_load fetch ps of
             Inl e \<Rightarrow> Inl e
           | Inr ds \<Rightarrow> Inr (\<lparr>page_content = page, metadata = [(''source'', p)]\<rparr> # ds)))"

text \<open>
  Modelled from the spec: the splitter \<^verbatim>\<open>RecursiveCharacterTextSplitter.split_documents\<close>
  is not among the sources. It consumes the loader's documents and splits "the page into
  text chunks"; every piece is a document of its own that keeps the metadata of the
  document it was cut from. How the text is cut is the parameter \<open>split_text\<close>.
\<close>

definition split_documents :: "(string \<Rightarrow> string list) \<Rightarrow> document list \<Rightarrow> document list" where
  "split_documents split_text docs =
     concat (map (\<lambda>d. map (\<lambda>t. \<lparr>page_content = t, metadata = metadata d\<rparr>) (split_text (page_content d))) docs)"

text \<open>
  Modelled from the spec: the vector store \<^verbatim>\<open>Chroma.from_documents\<close> is not among the
  sources. It "embeds and indexes" the pieces: the index holds the documents given, unless
  the embedding service fails.
\<close>

definition from_documents :: "(document list \<Rightarrow> error option) \<Rightarrow> document list \<Rightarrow> error + document list" where
  "from_documents embed_all docs = (case embed_all docs of Some e \<Rightarrow> Inl e | None \<Rightarrow> Inr docs)"

text \<open>
  Modelled from the spec: the retriever returned by \<^verbatim>\<open>as_retriever\<close> is not among the
  sources. It is "a component that, given a query, returns a ranked set of relevant
  documents from an index": the ranking \<open>rank\<close> chooses positions of the index, and the
  documents at the positions that exist are returned in that order.
\<close>

definition retrieve :: "(string \<Rightarrow> document list \<Rightarrow> nat list) \<Rightarrow> document list \<Rightarrow> string \<Rightarrow> document list" where
  "retrieve rank index q = map (\<lambda>i. index ! i) (filter (\<lambda>i. i < length index) (rank q index))"

text \<open>The notebook's indexing cell over this description of the library.\<close>

definition notebook_retriever ::
  "(string \<Rightarrow> error + string) \<Rightarrow> (string \<Rightarrow> string list) \<Rightarrow> (document list \<Rightarrow> error option) \<Rightarrow>
   (string \<Rightarrow> document list \<Rightarrow> nat list) \<Rightarrow> error + (string \<Rightarrow> document list)" where
  "notebook_retriever fetch split_text embed_all rank =
     build_retriever (loader_load fetch) (\<lambda>docs. Inr (split_documents split_text docs))
       (\<lambda>u. Inr ()) (\<lambda>splits embedding. from_documents embed_all splits)
       (\<lambda>vectorstore. Inr (retrieve rank vectorstore))"

text \<open>
  Modelled from the spec: the method \<^verbatim>\<open>stream\<close> of the chain made by
  \<^verbatim>\<open>create_retrieval_chain\<close> is not among the sources. A chunk is "a mapping with
  optional keys input (the original query string), context (a sequence of retrieved
  documents), and answer (an incrementally-growing text fragment)", and "keys appear
  across successive chunks in a fixed order (input, then context, then a sequence of
  answer fragments)". The documents are those of the retriever; the fragments are those
  of the language model, the parameter \<open>llm_stream\<close>.
\<close>

definition rag_chain_stream ::
  "(string \<Rightarrow> document list) \<Rightarrow> (string \<Rightarrow> document list \<Rightarrow> string list) \<Rightarrow> string \<Rightarrow> chunk list" where
  "rag_chain_stream retriever llm_stream q =
     [(''input'', PStr q)] # [(''context'', PDocs (retriever q))] #
     map (\<lambda>t. [(''answer'', PStr t)]) (llm_stream q (retriever q))"

text \<open>
  Modelled from the spec: the events of the retriever among those of
  \<^verbatim>\<open>astream_events\<close>, which is not among the sources. They are the two events of the
  recorded output, \<^verbatim>\<open>on_retriever_start\<close> and \<^verbatim>\<open>on_retriever_end\<close>, the second with
  the retrieved documents under \<^verbatim>\<open>output\<close>.
\<close>

definition retriever_events :: "string \<Rightarrow> string \<Rightarrow> document list \<Rightarrow> event list" where
  "retriever_events rid q docs =
     [\<lparr>event = ''on_retriever_start'', name = ''Retriever'', run_id = rid,
       tags = [''seq:step:4'', ''Chroma'', ''OpenAIEmbeddings''], event_metadata = [],
       data = [(''input'', Query q)]\<rparr>,
      \<lparr>event = ''on_retriever_end'', name = ''Retriever'', run_id = rid,
       tags = [''seq:step:4'', ''Chroma'', ''OpenAIEmbeddings''], event_metadata = [],
       data = [(''input'', Query q), (''output'', Documents docs)]\<rparr>]"

text \<open>The documents an event carries in its payload.\<close>

fun payload_documents :: "payload \<Rightarrow> document list" where
  "payload_documents (Documents ds) = ds"
| "payload_documents (MessageChunk content) = []"
| "payload_documents (Query q) = []"

definition event_documents :: "event \<Rightarrow> document list" where
  "event_documents e = concat (map (\<lambda>kv. payload_documents (snd kv)) (data e))"

text \<open>The documents a chunk carries under \<^verbatim>\<open>context\<close>.\<close>

fun value_documents :: "pyval \<Rightarrow> document list" where
  "value_documents (PDocs ds) = ds"
| "value_documents (PStr s) = []"
| "value_documents PNone = []"

definition context_documents :: "chunk \<Rightarrow> document list" where
  "context_documents c = value_documents (dict_get c ''context'')"

text \<open>
  The place of a key in the order input, context, answer, and the order of the keys of
  a sequence of chunks: no key of a chunk comes before a key of an earlier chunk.
\<close>

definition key_rank :: "string \<Rightarrow> nat" where
  "key_rank k = (if k = ''input'' then 0 else if k = ''context'' then 1 else if k = ''answer'' then 2 else 3)"

fun keys_in_order :: "string list list \<Rightarrow> bool" where
  "keys_in_order [] = True"
| "keys_in_order (ks # rest) =
     (list_all (\<lambda>k. list_all (\<lambda>later. list_all (\<lambda>k'. key_rank k \<le> key_rank k') later) rest) ks
      \<and> keys_in_order rest)"

text \<open>
  A document that comes from the page at \<open>url\<close>: its only metadata is the URL as
  \<^verbatim>\<open>source\<close>, and its text is one of the pieces of the text fetched from the page.
\<close>

definition from_page :: "(string \<Rightarrow> error + string) \<Rightarrow> (string \<Rightarrow> string list) \<Rightarrow> string \<Rightarrow> document \<Rightarrow> bool" where
  "from_page fetch split_text url d =
     (metadata d = [(''source'', url)] \<and>
      (case fetch url of Inl e \<Rightarrow> False | Inr page \<Rightarrow> page_content d \<in> set (split_text page)))"

section \<open>Properties of the loops\<close>

lemma for_loop_Inr:
  "(\<And>x. x \<in> set xs \<Longrightarrow> body x = Inr (f x)) \<Longrightarrow> for_loop body xs fin = (concat (map f xs), fin)"
  by (induction xs) auto

lemma for_loop_raised:
  "snd (for_loop body xs (Some e)) \<noteq> None"
  by (induction xs) (auto split: sum.splits prod.splits)

lemma for_loop_clean:
  "snd (for_loop body xs None) = None \<Longrightarrow> for_loop body xs fin = (fst (for_loop body xs None), fin)"
  by (induction xs) (auto split: sum.splits prod.splits)

lemma print_loop_eq: "print_loop (cs, fin) = (cs, fin)"
proof -
  have "for_loop print_chunk cs fin = (concat (map (\<lambda>c. [c]) cs), fin)"
    by (rule for_loop_Inr) (simp add: print_chunk_def)
  then show ?thesis by (simp add: print_loop_def)
qed

lemma answer_loop_eq:
  "answer_loop R (cs, fin) =
     (map (\<lambda>c. py_str R (dict_get c ''answer'') @ ''|'') (filter (\<lambda>c. truthy (dict_get c ''answer'')) cs), fin)"
proof -
  have "for_loop (print_answer R) cs fin =
      (concat (map (\<lambda>c. if truthy (dict_get c ''answer'') then [py_str R (dict_get c ''answer'') @ ''|''] else []) cs), fin)"
    by (rule for_loop_Inr) (simp add: print_answer_def Let_def)
  moreover have "concat (map (\<lambda>c. if truthy (dict_get c ''answer'') then [py_str R (dict_get c ''answer'') @ ''|''] else []) cs)
     = map (\<lambda>c. py_str R (dict_get c ''answer'') @ ''|'') (filter (\<lambda>c. truthy (dict_get c ''answer'')) cs)"
    by (induction cs) auto
  ultimately show ?thesis by (simp add: answer_loop_def)
qed

lemma pick_loop_eq:
  "pick_loop R (cs, fin) = (map (\<lambda>v. py_str R v @ ''|'') (pick ''answer'' cs), fin)"
proof -
  have "for_loop (print_picked R) (pick ''answer'' cs) fin =
      (concat (map (\<lambda>v. [py_str R v @ ''|'']) (pick ''answer'' cs)), fin)"
    by (rule for_loop_Inr) (simp add: print_picked_def)
  then show ?thesis by (simp add: pick_loop_def concat_map_singleton)
qed

lemma truthy_get:
  "truthy (dict_get c k) = (\<exists>v. map_of c k = Some v \<and> truthy v)"
  by (auto simp: dict_get_def split: option.splits)

lemma get_missing: "k \<notin> set (dict_keys c) \<Longrightarrow> dict_get c k = PNone"
proof -
  assume "k \<notin> set (dict_keys c)"
  then have "map_of c k = None" by (simp add: dict_keys_def map_of_eq_None_iff)
  then show ?thesis by (simp add: dict_get_def)
qed

text \<open>
  C3. The key-filtering loop writes something for a chunk exactly when the chunk has a
  truthy value under the key \<^verbatim>\<open>answer\<close>; what it writes is that value followed by the
  separator \<^verbatim>\<open>|\<close>; a chunk without the key \<^verbatim>\<open>answer\<close> (one that carries only
  \<^verbatim>\<open>input\<close> or \<^verbatim>\<open>context\<close>) writes nothing. An exception of the stream ends the loop
  after the chunks already yielded.
\<close>

theorem answer_loop_emits:
  "answer_loop docs_str (cs, fin) =
     (map (\<lambda>c. py_str docs_str (dict_get c ''answer'') @ ''|'')
        (filter (\<lambda>c. truthy (dict_get c ''answer'')) cs), fin)
   \<and> truthy (dict_get c ''answer'') = (\<exists>v. map_of c ''answer'' = Some v \<and> truthy v)
   \<and> (fst (answer_loop docs_str ([c], fin)) \<noteq> []) = truthy (dict_get c ''answer'')
   \<and> (''answer'' \<notin> set (dict_keys c) \<longrightarrow> fst (answer_loop docs_str ([c], fin)) = [])"
proof (intro conjI)
  show "answer_loop docs_str (cs, fin) =
     (map (\<lambda>c. py_str docs_str (dict_get c ''answer'') @ ''|'')
        (filter (\<lambda>c. truthy (dict_get c ''answer'')) cs), fin)"
    by (rule answer_loop_eq)
  show "truthy (dict_get c ''answer'') = (\<exists>v. map_of c ''answer'' = Some v \<and> truthy v)"
    by (rule truthy_get)
  show "(fst (answer_loop docs_str ([c], fin)) \<noteq> []) = truthy (dict_get c ''answer'')"
    by (simp add: answer_loop_eq)
  show "''answer'' \<notin> set (dict_keys c) \<longrightarrow> fst (answer_loop docs_str ([c], fin)) = []"
    by (simp add: answer_loop_eq get_missing)
qed

theorem answer_loop_emits_witness:
  "answer_loop (\<lambda>ds. ''[]'')
     ([[(''input'', PStr ''What is Task Decomposition?'')], [(''context'', PDocs [])],
       [(''answer'', PStr '''')], [(''answer'', PStr ''Task'')], [(''answer'', PStr '' decomposition'')]], None)
   = ([''Task|'', '' decomposition|''], None)
   \<and> ''answer'' \<notin> set (dict_keys [(''context'', PDocs [])])
   \<and> fst (answer_loop (\<lambda>ds. ''[]'') ([[(''context'', PDocs [])]], None)) = []"
  using answer_loop_emits[of "\<lambda>ds. ''[]''"
     "[[(''input'', PStr ''What is Task Decomposition?'')], [(''context'', PDocs [])],
       [(''answer'', PStr '''')], [(''answer'', PStr ''Task'')], [(''answer'', PStr '' decomposition'')]]"
     None "[(''context'', PDocs [])]"]
  by (simp add: dict_get_def dict_keys_def)

lemma fragment_piped: "fragment (s @ ''|'') = s"
  by (simp add: fragment_def)

lemma fragments_answer_loop:
  "map fragment (fst (answer_loop R (cs, fin))) =
     map (\<lambda>c. py_str R (dict_get c ''answer'')) (filter (\<lambda>c. truthy (dict_get c ''answer'')) cs)"
  by (simp add: answer_loop_eq fragment_piped comp_def)

lemma fragments_pick_loop:
  "map fragment (fst (pick_loop R (cs, fin))) = map (py_str R) (pick ''answer'' cs)"
  by (simp add: pick_loop_eq fragment_piped comp_def)

lemma text_fragments:
  "list_all answer_is_text cs \<Longrightarrow>
   map (\<lambda>c. py_str R (dict_get c ''answer'')) (filter (\<lambda>c. truthy (dict_get c ''answer'')) cs) =
   filter (\<lambda>f. f \<noteq> []) (map (py_str R) (pick ''answer'' cs))"
proof (induction cs)
  case Nil
  then show ?case by (simp add: pick_def)
next
  case (Cons c cs)
  from Cons.prems have tl: "list_all answer_is_text cs" by simp
  from Cons.prems have hd: "is_text (dict_get c ''answer'')" by (simp add: answer_is_text_def)
  from hd show ?case
    using Cons.IH[OF tl] by (cases "dict_get c ''answer''") (simp_all add: pick_def)
qed

lemma concat_nonempty: "concat (filter (\<lambda>f. f \<noteq> []) fs) = concat fs"
  by (induction fs) auto

text \<open>
  C9. On chunks whose answer, when present, is text, the key-filtering loop and the loop
  over \<^verbatim>\<open>rag_chain.pick("answer")\<close> write the same text once the separators are taken
  off: the fragments of the first are those of the second without the empty ones, so
  their concatenations are equal, and both loops end the same way.
\<close>

theorem answer_loop_pick_equivalent:
  "list_all answer_is_text cs \<Longrightarrow>
     concat (map fragment (fst (answer_loop docs_str (cs, fin)))) =
       concat (map fragment (fst (pick_loop docs_str (cs, fin))))
   \<and> map fragment (fst (answer_loop docs_str (cs, fin))) =
       filter (\<lambda>f. f \<noteq> []) (map fragment (fst (pick_loop docs_str (cs, fin))))
   \<and> snd (answer_loop docs_str (cs, fin)) = snd (pick_loop docs_str (cs, fin))"
proof -
  assume typed: "list_all answer_is_text cs"
  have frags: "map fragment (fst (answer_loop docs_str (cs, fin))) =
       filter (\<lambda>f. f \<noteq> []) (map fragment (fst (pick_loop docs_str (cs, fin))))"
    unfolding fragments_answer_loop fragments_pick_loop by (rule text_fragments[OF typed])
  have "concat (map fragment (fst (answer_loop docs_str (cs, fin)))) =
       concat (map fragment (fst (pick_loop docs_str (cs, fin))))"
    unfolding frags by (rule concat_nonempty)
  moreover have "snd (answer_loop docs_str (cs, fin)) = snd (pick_loop docs_str (cs, fin))"
    by (simp add: answer_loop_eq pick_loop_eq)
  ultimately show ?thesis using frags by simp
qed

theorem answer_loop_pick_equivalent_witness:
  "list_all answer_is_text
     [[(''input'', PStr ''What is Task Decomposition?'')], [(''context'', PDocs [])],
      [(''answer'', PStr '''')], [(''answer'', PStr ''Task'')], [(''answer'', PStr '' decomposition'')]]
   \<and> concat (map fragment (fst (answer_loop (\<lambda>ds. ''[]'')
       ([[(''input'', PStr ''What is Task Decomposition?'')], [(''context'', PDocs [])],
         [(''answer'', PStr '''')], [(''answer'', PStr ''Task'')], [(''answer'', PStr '' decomposition'')]], None))))
     = ''Task decomposition''
   \<and> fst (pick_loop (\<lambda>ds. ''[]'')
       ([[(''input'', PStr ''What is Task Decomposition?'')], [(''context'', PDocs [])],
         [(''answer'', PStr '''')], [(''answer'', PStr ''Task'')], [(''answer'', PStr '' decomposition'')]], None))
     = [''|'', ''Task|'', '' decomposition|'']"
  using answer_loop_pick_equivalent[of
     "[[(''input'', PStr ''What is Task Decomposition?'')], [(''context'', PDocs [])],
       [(''answer'', PStr '''')], [(''answer'', PStr ''Task'')], [(''answer'', PStr '' decomposition'')]]"
     "\<lambda>ds. ''[]''" None]
  by (simp add: answer_is_text_def dict_get_def pick_loop_eq pick_def fragment_def)

lemma emitted_text:
  "list_all answer_is_text cs \<Longrightarrow> p \<in> set (fst (answer_loop R (cs, fin))) \<Longrightarrow>
   fragment p \<noteq> [] \<and> p = fragment p @ ''|'' \<and> (\<exists>c\<in>set cs. dict_get c ''answer'' = PStr (fragment p))"
proof -
  assume typed: "list_all answer_is_text cs" and "p \<in> set (fst (answer_loop R (cs, fin)))"
  then obtain c where c: "c \<in> set cs" "truthy (dict_get c ''answer'')"
      and p: "p = py_str R (dict_get c ''answer'') @ ''|''"
    by (auto simp: answer_loop_eq)
  from typed c(1) have "is_text (dict_get c ''answer'')"
    by (simp add: list_all_iff answer_is_text_def)
  with c(2) obtain s where s: "dict_get c ''answer'' = PStr s" "s \<noteq> []"
    by (cases "dict_get c ''answer''") simp_all
  with p have "fragment p = s" by (simp add: fragment_piped)
  with s p c(1) show ?thesis by auto
qed

text \<open>
  C10. On chunks whose answer, when present, is text, every fragment written by the
  key-filtering loop is a non-empty string, the answer of one of the chunks. A chunk
  whose answer is the empty string is skipped by that loop, while the loop over
  \<^verbatim>\<open>rag_chain.pick("answer")\<close> writes its empty fragment (the separator alone).
\<close>

theorem answer_loop_fragments_nonempty:
  "list_all answer_is_text cs \<Longrightarrow>
     (\<forall>p\<in>set (fst (answer_loop docs_str (cs, fin))).
        fragment p \<noteq> [] \<and> p = fragment p @ ''|'' \<and> (\<exists>c\<in>set cs. dict_get c ''answer'' = PStr (fragment p)))
   \<and> fst (answer_loop docs_str ([[(''answer'', PStr '''')]], fin)) = []
   \<and> fst (pick_loop docs_str ([[(''answer'', PStr '''')]], fin)) = [''|'']"
proof -
  assume typed: "list_all answer_is_text cs"
  have "fst (answer_loop docs_str ([[(''answer'', PStr '''')]], fin)) = []"
    by (simp add: answer_loop_eq dict_get_def)
  moreover have "fst (pick_loop docs_str ([[(''answer'', PStr '''')]], fin)) = [''|'']"
    by (simp add: pick_loop_eq pick_def dict_get_def)
  ultimately show ?thesis using emitted_text[OF typed] by blast
qed

theorem answer_loop_fragments_nonempty_witness:
  "list_all answer_is_text [[(''answer'', PStr '''')], [(''answer'', PStr ''Task'')]]
   \<and> fst (answer_loop (\<lambda>ds. ''[]'') ([[(''answer'', PStr '''')], [(''answer'', PStr ''Task'')]], None)) = [''Task|'']
   \<and> fragment ''Task|'' = ''Task''
   \<and> fst (pick_loop (\<lambda>ds. ''[]'') ([[(''answer'', PStr '''')]], None)) = [''|'']"
  using answer_loop_fragments_nonempty[of "[[(''answer'', PStr '''')], [(''answer'', PStr ''Task'')]]" "\<lambda>ds. ''[]''" None]
  by (simp add: answer_is_text_def dict_get_def answer_loop_eq fragment_def)

lemma print_contextualized_ok:
  "carries_chunk e \<Longrightarrow>
   print_contextualized e =
     Inr (if selected e then (case chunk_content e of Some content \<Rightarrow> [content @ ''|''] | None \<Rightarrow> []) else [])"
  by (auto simp: carries_chunk_def selected_def print_contextualized_def
      split: option.splits payload.splits if_splits)

lemma concat_selected:
  "concat (map (\<lambda>x. if P x then f x else []) xs) = concat (map f (filter P xs))"
  by (induction xs) auto

lemma contextualize_loop_eq:
  "list_all carries_chunk evs \<Longrightarrow>
   contextualize_loop (evs, fin) =
     (concat (map (\<lambda>e. case chunk_content e of Some content \<Rightarrow> [content @ ''|''] | None \<Rightarrow> [])
        (filter selected evs)), fin)"
proof -
  assume ok: "list_all carries_chunk evs"
  have "for_loop print_contextualized evs fin =
      (concat (map (\<lambda>e. if selected e
          then (case chunk_content e of Some content \<Rightarrow> [content @ ''|''] | None \<Rightarrow> []) else []) evs), fin)"
  proof (rule for_loop_Inr)
    fix x assume "x \<in> set evs"
    with ok have "carries_chunk x" by (simp add: list_all_iff)
    then show "print_contextualized x =
        Inr (if selected x then (case chunk_content x of Some content \<Rightarrow> [content @ ''|''] | None \<Rightarrow> []) else [])"
      by (rule print_contextualized_ok)
  qed
  then show ?thesis by (simp add: contextualize_loop_def concat_selected)
qed

lemma retriever_loop_eq:
  "retriever_loop (evs, fin) =
     (concat (map (\<lambda>e. [Printed e, Blank]) (filter (\<lambda>e. name e = ''Retriever'') evs)), fin)"
proof -
  have "for_loop print_retriever evs fin =
      (concat (map (\<lambda>e. if name e = ''Retriever'' then [Printed e, Blank] else []) evs), fin)"
    by (rule for_loop_Inr) (simp add: print_retriever_def)
  then show ?thesis by (simp add: retriever_loop_def concat_selected)
qed

text \<open>
  C4. An event is a record with an event type, a name, a run identifier, a list of tags
  and a data payload, and the two asynchronous loops select by these fields. On events
  whose chat-model stream events carry a message chunk, the first loop writes the
  content of the chunk, followed by the separator, for exactly the events of type
  \<^verbatim>\<open>on_chat_model_stream\<close> tagged \<^verbatim>\<open>contextualize_q_llm\<close>; the second prints exactly
  the events named \<^verbatim>\<open>Retriever\<close>, each followed by an empty line.
\<close>

theorem event_loops_select:
  "list_all carries_chunk evs \<Longrightarrow>
     contextualize_loop (evs, fin) =
       (concat (map (\<lambda>e. case chunk_content e of Some content \<Rightarrow> [content @ ''|''] | None \<Rightarrow> [])
          (filter selected evs)), fin)
   \<and> retriever_loop (evs, fin) =
       (concat (map (\<lambda>e. [Printed e, Blank]) (filter (\<lambda>e. name e = ''Retriever'') evs)), fin)
   \<and> selected e = (event e = ''on_chat_model_stream'' \<and> ''contextualize_q_llm'' \<in> set (tags e))
   \<and> (carries_chunk e \<longrightarrow> (fst (contextualize_loop ([e], fin)) \<noteq> []) = selected e)
   \<and> (fst (retriever_loop ([e], fin)) \<noteq> []) = (name e = ''Retriever'')"
proof (intro conjI)
  assume ok: "list_all carries_chunk evs"
  show "contextualize_loop (evs, fin) =
       (concat (map (\<lambda>e. case chunk_content e of Some content \<Rightarrow> [content @ ''|''] | None \<Rightarrow> [])
          (filter selected evs)), fin)"
    by (rule contextualize_loop_eq[OF ok])
  show "retriever_loop (evs, fin) =
       (concat (map (\<lambda>e. [Printed e, Blank]) (filter (\<lambda>e. name e = ''Retriever'') evs)), fin)"
    by (rule retriever_loop_eq)
  show "selected e = (event e = ''on_chat_model_stream'' \<and> ''contextualize_q_llm'' \<in> set (tags e))"
    by (simp add: selected_def)
  show "carries_chunk e \<longrightarrow> (fst (contextualize_loop ([e], fin)) \<noteq> []) = selected e"
  proof
    assume c: "carries_chunk e"
    then have "list_all carries_chunk [e]" by simp
    then show "(fst (contextualize_loop ([e], fin)) \<noteq> []) = selected e"
      using c by (auto simp: contextualize_loop_eq carries_chunk_def split: option.splits if_splits)
  qed
  show "(fst (retriever_loop ([e], fin)) \<noteq> []) = (name e = ''Retriever'')"
    by (simp add: retriever_loop_eq)
qed

theorem event_loops_select_witness:
  "list_all carries_chunk
     (retriever_events ''6834097c'' ''What are some typical methods used for task decomposition?'' [] @
      [\<lparr>event = ''on_chat_model_stream'', name = ''ChatOpenAI'', run_id = ''a1'',
        tags = [''seq:step:2'', ''contextualize_q_llm''], event_metadata = [],
        data = [(''chunk'', MessageChunk ''What'')]\<rparr>,
       \<lparr>event = ''on_chat_model_stream'', name = ''ChatOpenAI'', run_id = ''b2'',
        tags = [''seq:step:2''], event_metadata = [],
        data = [(''chunk'', MessageChunk ''Task'')]\<rparr>])
   \<and> fst (contextualize_loop
     (retriever_events ''6834097c'' ''What are some typical methods used for task decomposition?'' [] @
      [\<lparr>event = ''on_chat_model_stream'', name = ''ChatOpenAI'', run_id = ''a1'',
        tags = [''seq:step:2'', ''contextualize_q_llm''], event_metadata = [],
        data = [(''chunk'', MessageChunk ''What'')]\<rparr>,
       \<lparr>event = ''on_chat_model_stream'', name = ''ChatOpenAI'', run_id = ''b2'',
        tags = [''seq:step:2''], event_metadata = [],
        data = [(''chunk'', MessageChunk ''Task'')]\<rparr>], None)) = [''What|'']
   \<and> length (fst (retriever_loop
     (retriever_events ''6834097c'' ''What are some typical methods used for task decomposition?'' [] @
      [\<lparr>event = ''on_chat_model_stream'', name = ''ChatOpenAI'', run_id = ''a1'',
        tags = [''seq:step:2'', ''contextualize_q_llm''], event_metadata = [],
        data = [(''chunk'', MessageChunk ''What'')]\<rparr>,
       \<lparr>event = ''on_chat_model_stream'', name = ''ChatOpenAI'', run_id = ''b2'',
        tags = [''seq:step:2''], event_metadata = [],
        data = [(''chunk'', MessageChunk ''Task'')]\<rparr>], None))) = 4"
  using event_loops_select[of
     "retriever_events ''6834097c'' ''What are some typical methods used for task decomposition?'' [] @
      [\<lparr>event = ''on_chat_model_stream'', name = ''ChatOpenAI'', run_id = ''a1'',
        tags = [''seq:step:2'', ''contextualize_q_llm''], event_metadata = [],
        data = [(''chunk'', MessageChunk ''What'')]\<rparr>,
       \<lparr>event = ''on_chat_model_stream'', name = ''ChatOpenAI'', run_id = ''b2'',
        tags = [''seq:step:2''], event_metadata = [],
        data = [(''chunk'', MessageChunk ''Task'')]\<rparr>]" None]
  by (simp add: retriever_events_def carries_chunk_def selected_def)

lemma for_loop_body_raises:
  "(\<And>x. x \<in> set pre \<Longrightarrow> body x = Inr (f x)) \<Longrightarrow> body ev = Inl err \<Longrightarrow>
   for_loop body (pre @ ev # post) fin = (concat (map f pre), Some err)"
  by (induction pre) auto

lemma print_contextualized_raises:
  "\<not> carries_chunk ev \<Longrightarrow>
   print_contextualized ev =
     Inl (case map_of (data ev) ''chunk'' of None \<Rightarrow> KeyError ''chunk'' | Some p \<Rightarrow> AttributeError ''content'')"
  by (auto simp: carries_chunk_def selected_def print_contextualized_def
      split: option.splits payload.splits if_splits)

lemma contextualize_loop_raises:
  "list_all carries_chunk pre \<Longrightarrow> \<not> carries_chunk ev \<Longrightarrow>
   contextualize_loop (pre @ ev # post, fin) =
     (concat (map (\<lambda>e. case chunk_content e of Some content \<Rightarrow> [content @ ''|''] | None \<Rightarrow> [])
        (filter selected pre)),
      Some (case map_of (data ev) ''chunk'' of None \<Rightarrow> KeyError ''chunk'' | Some p \<Rightarrow> AttributeError ''content''))"
proof -
  assume ok: "list_all carries_chunk pre" and bad: "\<not> carries_chunk ev"
  have "for_loop print_contextualized (pre @ ev # post) fin =
      (concat (map (\<lambda>e. if selected e
          then (case chunk_content e of Some content \<Rightarrow> [content @ ''|''] | None \<Rightarrow> []) else []) pre),
       Some (case map_of (data ev) ''chunk'' of None \<Rightarrow> KeyError ''chunk'' | Some p \<Rightarrow> AttributeError ''content''))"
  proof (rule for_loop_body_raises)
    fix x assume "x \<in> set pre"
    with ok have "carries_chunk x" by (simp add: list_all_iff)
    then show "print_contextualized x =
        Inr (if selected x then (case chunk_content x of Some content \<Rightarrow> [content @ ''|''] | None \<Rightarrow> []) else [])"
      by (rule print_contextualized_ok)
  next
    show "print_contextualized ev =
      Inl (case map_of (data ev) ''chunk'' of None \<Rightarrow> KeyError ''chunk'' | Some p \<Rightarrow> AttributeError ''content'')"
      by (rule print_contextualized_raises[OF bad])
  qed
  then show ?thesis by (simp add: contextualize_loop_def concat_selected)
qed

text \<open>
  C7. No call site and no loop of the notebook handles an exception. In the indexing
  cell the exception of whichever library call fails first is the result, unchanged,
  and the later calls are not made. Each loop ends the way its stream ends: an
  exception of the stream leaves the loop unchanged, after exactly the output the loop
  writes for the items already yielded. An exception raised in the body of a loop (only
  the loop over the chat-model events has such a body: \<^verbatim>\<open>KeyError\<close> for an event without
  \<^verbatim>\<open>chunk\<close>, \<^verbatim>\<open>AttributeError\<close> for a payload without \<^verbatim>\<open>content\<close>) ends the loop at
  that event with that exception: nothing is written for it or after it, whatever the
  stream would have done later.
\<close>

theorem errors_propagate:
  "(load_call web_paths = Inl e \<longrightarrow>
      build_retriever load_call split_call embeddings_call index_call retriever_call = Inl e)
   \<and> (load_call web_paths = Inr docs \<and> split_call docs = Inl e \<longrightarrow>
      build_retriever load_call split_call embeddings_call index_call retriever_call = Inl e)
   \<and> (load_call web_paths = Inr docs \<and> split_call docs = Inr splits \<and> embeddings_call () = Inl e \<longrightarrow>
      build_retriever load_call split_call embeddings_call index_call retriever_call = Inl e)
   \<and> (load_call web_paths = Inr docs \<and> split_call docs = Inr splits \<and>
      embeddings_call () = Inr embedding \<and> index_call splits embedding = Inl e \<longrightarrow>
      build_retriever load_call split_call embeddings_call index_call retriever_call = Inl e)
   \<and> (load_call web_paths = Inr docs \<and> split_call docs = Inr splits \<and>
      embeddings_call () = Inr embedding \<and> index_call splits embedding = Inr vectorstore \<longrightarrow>
      build_retriever load_call split_call embeddings_call index_call retriever_call = retriever_call vectorstore)
   \<and> print_loop (cs, fin) = (cs, fin)
   \<and> answer_loop docs_str (cs, fin) =
       (map (\<lambda>c. py_str docs_str (dict_get c ''answer'') @ ''|'')
          (filter (\<lambda>c. truthy (dict_get c ''answer'')) cs), fin)
   \<and> pick_loop docs_str (cs, fin) = (map (\<lambda>v. py_str docs_str v @ ''|'') (pick ''answer'' cs), fin)
   \<and> retriever_loop (evs, fin) =
       (concat (map (\<lambda>e. [Printed e, Blank]) (filter (\<lambda>e. name e = ''Retriever'') evs)), fin)
   \<and> (list_all carries_chunk evs \<longrightarrow>
       contextualize_loop (evs, fin) =
         (concat (map (\<lambda>e. case chunk_content e of Some content \<Rightarrow> [content @ ''|''] | None \<Rightarrow> [])
            (filter selected evs)), fin))
   \<and> (list_all carries_chunk evs \<and> \<not> carries_chunk ev \<longrightarrow>
       contextualize_loop (evs @ ev # post, fin) =
         (concat (map (\<lambda>e. case chunk_content e of Some content \<Rightarrow> [content @ ''|''] | None \<Rightarrow> [])
            (filter selected evs)),
          Some (case map_of (data ev) ''chunk'' of
                  None \<Rightarrow> KeyError ''chunk''
                | Some p \<Rightarrow> AttributeError ''content'')))"
proof (intro conjI)
  show "print_loop (cs, fin) = (cs, fin)"
    by (rule print_loop_eq)
  show "answer_loop docs_str (cs, fin) =
       (map (\<lambda>c. py_str docs_str (dict_get c ''answer'') @ ''|'')
          (filter (\<lambda>c. truthy (dict_get c ''answer'')) cs), fin)"
    by (rule answer_loop_eq)
  show "pick_loop docs_str (cs, fin) = (map (\<lambda>v. py_str docs_str v @ ''|'') (pick ''answer'' cs), fin)"
    by (rule pick_loop_eq)
  show "retriever_loop (evs, fin) =
       (concat (map (\<lambda>e. [Printed e, Blank]) (filter (\<lambda>e. name e = ''Retriever'') evs)), fin)"
    by (rule retriever_loop_eq)
  show "list_all carries_chunk evs \<longrightarrow>
       contextualize_loop (evs, fin) =
         (concat (map (\<lambda>e. case chunk_content e of Some content \<Rightarrow> [content @ ''|''] | None \<Rightarrow> [])
            (filter selected evs)), fin)"
    by (simp add: contextualize_loop_eq)
  show "list_all carries_chunk evs \<and> \<not> carries_chunk ev \<longrightarrow>
       contextualize_loop (evs @ ev # post, fin) =
         (concat (map (\<lambda>e. case chunk_content e of Some content \<Rightarrow> [content @ ''|''] | None \<Rightarrow> [])
            (filter selected evs)),
          Some (case map_of (data ev) ''chunk'' of
                  None \<Rightarrow> KeyError ''chunk''
                | Some p \<Rightarrow> AttributeError ''content''))"
    using contextualize_loop_raises[of evs ev post fin] by blast
qed (simp_all add: build_retriever_def)

theorem errors_propagate_witness:
  "build_retriever (\<lambda>paths. Inl (LibraryError ''ConnectionError'')) (\<lambda>docs. Inr docs) (\<lambda>u. Inr ())
      (\<lambda>splits embedding. Inr splits) (\<lambda>vectorstore. Inr vectorstore) = Inl (LibraryError ''ConnectionError'')
   \<and> build_retriever (\<lambda>paths. Inr []) (\<lambda>docs. Inr docs) (\<lambda>u. Inl (LibraryError ''OPENAI_API_KEY is not set'') :: error + unit)
      (\<lambda>splits embedding. Inr splits) (\<lambda>vectorstore. Inr vectorstore) = Inl (LibraryError ''OPENAI_API_KEY is not set'')
   \<and> build_retriever (\<lambda>paths. Inr []) (\<lambda>docs. Inr docs) (\<lambda>u. Inr ())
      (\<lambda>splits embedding. Inl (LibraryError ''RateLimitError'') :: error + document list) (\<lambda>vectorstore. Inr vectorstore) = Inl (LibraryError ''RateLimitError'')
   \<and> answer_loop (\<lambda>ds. ''[]'') ([[(''answer'', PStr ''Task'')]], Some (LibraryError ''RateLimitError''))
      = ([''Task|''], Some (LibraryError ''RateLimitError''))
   \<and> contextualize_loop
       ([\<lparr>event = ''on_chat_model_stream'', name = ''ChatOpenAI'', run_id = ''a1'',
          tags = [''seq:step:2'', ''contextualize_q_llm''], event_metadata = [],
          data = [(''chunk'', MessageChunk ''What'')]\<rparr>], Some (LibraryError ''RateLimitError''))
      = ([''What|''], Some (LibraryError ''RateLimitError''))
   \<and> contextualize_loop
       ([\<lparr>event = ''on_chat_model_stream'', name = ''ChatOpenAI'', run_id = ''a1'',
          tags = [''seq:step:2'', ''contextualize_q_llm''], event_metadata = [],
          data = [(''chunk'', MessageChunk ''What'')]\<rparr>,
         \<lparr>event = ''on_chat_model_stream'', name = ''ChatOpenAI'', run_id = ''a1'',
          tags = [''seq:step:2'', ''contextualize_q_llm''], event_metadata = [],
          data = []\<rparr>,
         \<lparr>event = ''on_chat_model_stream'', name = ''ChatOpenAI'', run_id = ''a1'',
          tags = [''seq:step:2'', ''contextualize_q_llm''], event_metadata = [],
          data = [(''chunk'', MessageChunk ''are'')]\<rparr>], None)
      = ([''What|''], Some (KeyError ''chunk''))"
  using errors_propagate[of "\<lambda>paths. Inl (LibraryError ''ConnectionError'')" "LibraryError ''ConnectionError''"
      "\<lambda>docs. Inr docs" "\<lambda>u. Inr ()" "\<lambda>splits embedding. Inr splits" "\<lambda>vectorstore. Inr vectorstore"
      "[]" "[]" "()" "[]" "[]" None "\<lambda>ds. ''[]''" "[]"]
    errors_propagate[of "\<lambda>paths. Inr []" "LibraryError ''OPENAI_API_KEY is not set''"
      "\<lambda>docs. Inr docs" "\<lambda>u. Inl (LibraryError ''OPENAI_API_KEY is not set'') :: error + unit" "\<lambda>splits embedding. Inr splits" "\<lambda>vectorstore. Inr vectorstore"
      "[]" "[]" "()" "[]" "[]" None "\<lambda>ds. ''[]''" "[]"]
    errors_propagate[of "\<lambda>paths. Inr []" "LibraryError ''RateLimitError''"
      "\<lambda>docs. Inr docs" "\<lambda>u. Inr ()" "\<lambda>splits embedding. Inl (LibraryError ''RateLimitError'') :: error + document list" "\<lambda>vectorstore. Inr vectorstore"
      "[]" "[]" "()" "[]" "[[(''answer'', PStr ''Task'')]]" "Some (LibraryError ''RateLimitError'')" "\<lambda>ds. ''[]''"
      "[\<lparr>event = ''on_chat_model_stream'', name = ''ChatOpenAI'', run_id = ''a1'',
          tags = [''seq:step:2'', ''contextualize_q_llm''], event_metadata = [],
          data = [(''chunk'', MessageChunk ''What'')]\<rparr>]"]
    errors_propagate[of "\<lambda>paths. Inr []" "LibraryError ''RateLimitError''"
      "\<lambda>docs. Inr docs" "\<lambda>u. Inr ()" "\<lambda>splits embedding. Inl (LibraryError ''RateLimitError'') :: error + document list" "\<lambda>vectorstore. Inr vectorstore"
      "[]" "[]" "()" "[]" "[]" None "\<lambda>ds. ''[]''"
      "[\<lparr>event = ''on_chat_model_stream'', name = ''ChatOpenAI'', run_id = ''a1'',
          tags = [''seq:step:2'', ''contextualize_q_llm''], event_metadata = [],
          data = [(''chunk'', MessageChunk ''What'')]\<rparr>]"
      "\<lparr>event = ''on_chat_model_stream'', name = ''ChatOpenAI'', run_id = ''a1'',
          tags = [''seq:step:2'', ''contextualize_q_llm''], event_metadata = [],
          data = []\<rparr>"
      "[\<lparr>event = ''on_chat_model_stream'', name = ''ChatOpenAI'', run_id = ''a1'',
          tags = [''seq:step:2'', ''contextualize_q_llm''], event_metadata = [],
          data = [(''chunk'', MessageChunk ''are'')]\<rparr>]"]
  by (simp add: carries_chunk_def selected_def dict_get_def)

section \<open>Properties of the notebook's structure and setup\<close>

text \<open>
  C5, as amended. The code cells hold five iteration loops over streaming calls: two
  asynchronous ones (cells 7 and 8), each over \<^verbatim>\<open>rag_chain.astream_events\<close>, and three
  synchronous ones (cells 3, 4 and 5), over \<^verbatim>\<open>rag_chain.stream\<close> twice and over
  \<^verbatim>\<open>chain.stream\<close> once.
\<close>

theorem notebook_loop_counts:
  "length (loops_of AsyncFor) = 2 \<and> length (loops_of For) = 3
   \<and> map iterable (loops_of AsyncFor) = [''rag_chain.astream_events'', ''rag_chain.astream_events'']
   \<and> map iterable (loops_of For) = [''rag_chain.stream'', ''rag_chain.stream'', ''chain.stream'']
   \<and> map cell (loops_of AsyncFor) = [7, 8] \<and> map cell (loops_of For) = [3, 4, 5]"
  by (simp add: loops_of_def notebook_loops_def)

text \<open>
  C5, as stated, fails: the notebook does not hold exactly one asynchronous and exactly
  one synchronous loop.
\<close>

theorem one_loop_of_each_kind_counterexample:
  "\<not> (length (loops_of AsyncFor) = 1 \<and> length (loops_of For) = 1)"
  by (simp add: loops_of_def notebook_loops_def)

lemma set_openai_key_eq:
  "set_openai_key getpass env =
     (case getpass of
        Inl e \<Rightarrow> (env, Some e)
      | Inr typed \<Rightarrow>
          if CHR 0x00 \<in> set typed then (env, Some (ValueError ''embedded null byte''))
          else (env(''OPENAI_API_KEY'' \<mapsto> typed), None))"
  by (simp add: set_openai_key_def environ_setitem_def split: sum.splits)

lemma set_langsmith_eq:
  "set_langsmith getpass env =
     (case getpass of
        Inl e \<Rightarrow> (env(''LANGCHAIN_TRACING_V2'' \<mapsto> ''true''), Some e)
      | Inr typed \<Rightarrow>
          if CHR 0x00 \<in> set typed
          then (env(''LANGCHAIN_TRACING_V2'' \<mapsto> ''true''), Some (ValueError ''embedded null byte''))
          else (env(''LANGCHAIN_TRACING_V2'' \<mapsto> ''true'', ''LANGCHAIN_API_KEY'' \<mapsto> typed), None))"
  by (simp add: set_langsmith_def environ_setitem_def split: sum.splits)

lemma setup_environment_eq:
  "setup_environment getpass1 getpass2 env =
     (case getpass1 of
        Inl e \<Rightarrow> (env, Some e)
      | Inr typed1 \<Rightarrow>
          if CHR 0x00 \<in> set typed1 then (env, Some (ValueError ''embedded null byte''))
          else set_langsmith getpass2 (env(''OPENAI_API_KEY'' \<mapsto> typed1)))"
  by (simp add: setup_environment_def set_openai_key_eq split: sum.splits)

lemma setup_overrides:
  "fst (setup_environment getpass1 getpass2 env) = env ++ fst (setup_environment getpass1 getpass2 Map.empty)"
  by (rule ext) (simp add: setup_environment_eq set_langsmith_eq map_add_def split: sum.splits)

lemma setup_outcome:
  "snd (setup_environment getpass1 getpass2 env) = snd (setup_environment getpass1 getpass2 Map.empty)"
  by (simp add: setup_environment_eq set_langsmith_eq split: sum.splits)

lemma setup_dom:
  "dom (fst (setup_environment getpass1 getpass2 Map.empty)) \<subseteq> set environment_variables"
  by (auto simp: setup_environment_eq set_langsmith_eq environment_variables_def split: sum.splits if_splits)

text \<open>
  C6, as amended. The setup cells assign three environment variables,
  \<^verbatim>\<open>OPENAI_API_KEY\<close>, \<^verbatim>\<open>LANGCHAIN_TRACING_V2\<close> and \<^verbatim>\<open>LANGCHAIN_API_KEY\<close>, and read
  none: the environment they leave is the environment found, overridden by bindings
  that do not depend on it, all of them for these three names; whether the cells end
  with an exception does not depend on it either. When both prompts return values
  without a null byte, the first and the last variable get what was typed and the second
  the constant \<^verbatim>\<open>true\<close>, and the cells end normally; they end normally in no other case.
  An assignment whose prompt raises, or whose value holds a null byte, stores nothing
  and lets the exception out, after the assignments already done.
\<close>

theorem setup_environment_assigns_three:
  "length environment_variables = 3 \<and> distinct environment_variables
   \<and> fst (setup_environment getpass1 getpass2 env) = env ++ fst (setup_environment getpass1 getpass2 Map.empty)
   \<and> snd (setup_environment getpass1 getpass2 env) = snd (setup_environment getpass1 getpass2 Map.empty)
   \<and> dom (fst (setup_environment getpass1 getpass2 Map.empty)) \<subseteq> set environment_variables
   \<and> (CHR 0x00 \<notin> set typed1 \<and> CHR 0x00 \<notin> set typed2 \<longrightarrow>
        setup_environment (Inr typed1) (Inr typed2) env =
          (env(''OPENAI_API_KEY'' \<mapsto> typed1, ''LANGCHAIN_TRACING_V2'' \<mapsto> ''true'',
               ''LANGCHAIN_API_KEY'' \<mapsto> typed2), None))
   \<and> (snd (setup_environment getpass1 getpass2 env) = None) =
        (\<exists>t1 t2. getpass1 = Inr t1 \<and> getpass2 = Inr t2 \<and> CHR 0x00 \<notin> set t1 \<and> CHR 0x00 \<notin> set t2)
   \<and> set_openai_key getpass env =
        (case getpass of
           Inl e \<Rightarrow> (env, Some e)
         | Inr typed \<Rightarrow>
             if CHR 0x00 \<in> set typed then (env, Some (ValueError ''embedded null byte''))
             else (env(''OPENAI_API_KEY'' \<mapsto> typed), None))
   \<and> set_langsmith getpass env =
        (case getpass of
           Inl e \<Rightarrow> (env(''LANGCHAIN_TRACING_V2'' \<mapsto> ''true''), Some e)
         | Inr typed \<Rightarrow>
             if CHR 0x00 \<in> set typed
             then (env(''LANGCHAIN_TRACING_V2'' \<mapsto> ''true''), Some (ValueError ''embedded null byte''))
             else (env(''LANGCHAIN_TRACING_V2'' \<mapsto> ''true'', ''LANGCHAIN_API_KEY'' \<mapsto> typed), None))"
proof (intro conjI)
  show "fst (setup_environment getpass1 getpass2 env) = env ++ fst (setup_environment getpass1 getpass2 Map.empty)"
    by (rule setup_overrides)
  show "snd (setup_environment getpass1 getpass2 env) = snd (setup_environment getpass1 getpass2 Map.empty)"
    by (rule setup_outcome)
  show "dom (fst (setup_environment getpass1 getpass2 Map.empty)) \<subseteq> set environment_variables"
    by (rule setup_dom)
  show "CHR 0x00 \<notin> set typed1 \<and> CHR 0x00 \<notin> set typed2 \<longrightarrow>
        setup_environment (Inr typed1) (Inr typed2) env =
          (env(''OPENAI_API_KEY'' \<mapsto> typed1, ''LANGCHAIN_TRACING_V2'' \<mapsto> ''true'',
               ''LANGCHAIN_API_KEY'' \<mapsto> typed2), None)"
    by (simp add: setup_environment_eq set_langsmith_eq)
  show "(snd (setup_environment getpass1 getpass2 env) = None) =
        (\<exists>t1 t2. getpass1 = Inr t1 \<and> getpass2 = Inr t2 \<and> CHR 0x00 \<notin> set t1 \<and> CHR 0x00 \<notin> set t2)"
    by (cases getpass1; cases getpass2) (simp_all add: setup_environment_eq set_langsmith_eq)
  show "set_openai_key getpass env =
        (case getpass of
           Inl e \<Rightarrow> (env, Some e)
         | Inr typed \<Rightarrow>
             if CHR 0x00 \<in> set typed then (env, Some (ValueError ''embedded null byte''))
             else (env(''OPENAI_API_KEY'' \<mapsto> typed), None))"
    by (rule set_openai_key_eq)
  show "set_langsmith getpass env =
        (case getpass of
           Inl e \<Rightarrow> (env(''LANGCHAIN_TRACING_V2'' \<mapsto> ''true''), Some e)
         | Inr typed \<Rightarrow>
             if CHR 0x00 \<in> set typed
             then (env(''LANGCHAIN_TRACING_V2'' \<mapsto> ''true''), Some (ValueError ''embedded null byte''))
             else (env(''LANGCHAIN_TRACING_V2'' \<mapsto> ''true'', ''LANGCHAIN_API_KEY'' \<mapsto> typed), None))"
    by (rule set_langsmith_eq)
qed (simp_all add: environment_variables_def)

theorem setup_environment_assigns_three_witness:
  "CHR 0x00 \<notin> set ''sk-1'' \<and> CHR 0x00 \<notin> set ''ls-1''
   \<and> setup_environment (Inr ''sk-1'') (Inr ''ls-1'') [''HOME'' \<mapsto> ''/root''] =
        ([''HOME'' \<mapsto> ''/root'', ''OPENAI_API_KEY'' \<mapsto> ''sk-1'', ''LANGCHAIN_TRACING_V2'' \<mapsto> ''true'',
          ''LANGCHAIN_API_KEY'' \<mapsto> ''ls-1''], None)
   \<and> setup_environment (Inr (''sk'' @ [CHR 0x00])) (Inr ''ls-1'') [''HOME'' \<mapsto> ''/root''] =
        ([''HOME'' \<mapsto> ''/root''], Some (ValueError ''embedded null byte''))
   \<and> set_langsmith (Inr (''ls'' @ [CHR 0x00])) [''HOME'' \<mapsto> ''/root''] =
        ([''HOME'' \<mapsto> ''/root'', ''LANGCHAIN_TRACING_V2'' \<mapsto> ''true''], Some (ValueError ''embedded null byte''))"
  using setup_environment_assigns_three[of "Inr ''sk-1''" "Inr ''ls-1''" "[''HOME'' \<mapsto> ''/root'']"
      "''sk-1''" "''ls-1''" "Inr (''ls'' @ [CHR 0x00])"]
  by (simp add: setup_environment_def set_openai_key_def environ_setitem_def)

text \<open>
  C6, as stated, fails: started in an empty environment, with two values typed at the
  prompts, the setup cells leave three variables defined, not two.
\<close>

theorem two_environment_variables_counterexample:
  "card (dom (fst (setup_environment (Inr ''sk-1'') (Inr ''ls-1'') Map.empty))) \<noteq> 2"
  by (simp add: setup_environment_def set_langsmith_def set_openai_key_def environ_setitem_def)

section \<open>Properties of the stream of the retrieval chain\<close>

lemma keys_in_order_answers: "keys_in_order (replicate n [''answer''])"
  by (induction n) (simp_all add: list_all_iff)

lemma stream_keys:
  "map dict_keys (rag_chain_stream retriever llm_stream q) =
     [''input''] # [''context''] # replicate (length (llm_stream q (retriever q))) [''answer'']"
  by (simp add: rag_chain_stream_def dict_keys_def comp_def map_replicate_const)

text \<open>
  C1. The loop of cell 3 prints every chunk of the stream, in the order of the stream,
  and the keys of the chunks are: \<^verbatim>\<open>input\<close>, then \<^verbatim>\<open>context\<close>, then \<^verbatim>\<open>answer\<close> once for
  each fragment of the language model. No chunk has a key that comes, in this order,
  before a key of an earlier chunk.
\<close>

theorem stream_key_order:
  "fst (print_loop (rag_chain_stream retriever llm_stream q, fin)) = rag_chain_stream retriever llm_stream q
   \<and> map dict_keys (rag_chain_stream retriever llm_stream q) =
       [''input''] # [''context''] # replicate (length (llm_stream q (retriever q))) [''answer'']
   \<and> keys_in_order (map dict_keys (fst (print_loop (rag_chain_stream retriever llm_stream q, fin))))"
proof -
  have "keys_in_order ([''input''] # [''context''] # replicate n [''answer''])" for n
    using keys_in_order_answers[of n] by (simp add: key_rank_def list_all_iff)
  then show ?thesis by (simp add: print_loop_eq stream_keys)
qed

theorem stream_key_order_witness:
  "fst (print_loop (rag_chain_stream (\<lambda>q. []) (\<lambda>q docs. ['''', ''Task'', '' decomposition''])
          ''What is Task Decomposition?'', None))
     = [[(''input'', PStr ''What is Task Decomposition?'')], [(''context'', PDocs [])],
        [(''answer'', PStr '''')], [(''answer'', PStr ''Task'')], [(''answer'', PStr '' decomposition'')]]
   \<and> keys_in_order [[''input''], [''context''], [''answer''], [''answer''], [''answer'']]
   \<and> \<not> keys_in_order [[''input''], [''answer''], [''context'']]"
  using stream_key_order[of "\<lambda>q. []" "\<lambda>q docs. ['''', ''Task'', '' decomposition'']"
      "''What is Task Decomposition?''" None]
  by (simp add: rag_chain_stream_def dict_keys_def key_rank_def)

text \<open>
  C2. Every chunk of the stream has its keys among \<^verbatim>\<open>input\<close>, \<^verbatim>\<open>context\<close> and
  \<^verbatim>\<open>answer\<close>; the value under \<^verbatim>\<open>input\<close> is the query passed to the call, the value
  under \<^verbatim>\<open>context\<close> is the list of the retrieved documents, and a value under
  \<^verbatim>\<open>answer\<close> is a text fragment of the language model.
\<close>

theorem stream_chunks_shape:
  "\<forall>c\<in>set (rag_chain_stream retriever llm_stream q).
     chunk_ok q c \<and> set (dict_keys c) \<subseteq> {''input'', ''context'', ''answer''}
     \<and> (\<forall>v. map_of c ''input'' = Some v \<longrightarrow> v = PStr q)
     \<and> (\<forall>v. map_of c ''context'' = Some v \<longrightarrow> v = PDocs (retriever q))
     \<and> (\<forall>v. map_of c ''answer'' = Some v \<longrightarrow> (\<exists>t\<in>set (llm_stream q (retriever q)). v = PStr t))"
  by (auto simp: rag_chain_stream_def chunk_ok_def dict_keys_def)

theorem stream_chunks_shape_witness:
  "[(''answer'', PStr ''Task'')] \<in> set (rag_chain_stream (\<lambda>q. []) (\<lambda>q docs. ['''', ''Task''])
        ''What is Task Decomposition?'')
   \<and> chunk_ok ''What is Task Decomposition?'' [(''answer'', PStr ''Task'')]
   \<and> [(''input'', PStr ''What is Task Decomposition?'')] \<in> set (rag_chain_stream (\<lambda>q. []) (\<lambda>q docs. ['''', ''Task''])
        ''What is Task Decomposition?'')
   \<and> chunk_ok ''What is Task Decomposition?'' [(''input'', PStr ''What is Task Decomposition?'')]
   \<and> \<not> chunk_ok ''What is Task Decomposition?'' [(''input'', PStr ''Something else'')]"
  using stream_chunks_shape[of "\<lambda>q. []" "\<lambda>q docs. ['''', ''Task'']" "''What is Task Decomposition?''"]
  by (simp add: rag_chain_stream_def chunk_ok_def)

section \<open>Properties of the documents\<close>

lemma loader_load_source:
  "loader_load fetch ps = Inr ds \<Longrightarrow> d \<in> set ds \<Longrightarrow>
   \<exists>p\<in>set ps. metadata d = [(''source'', p)] \<and> fetch p = Inr (page_content d)"
proof (induction ps arbitrary: ds)
  case Nil
  then show ?case by simp
next
  case (Cons p ps)
  from Cons.prems(1) obtain page rest where
    page: "fetch p = Inr page" and rest: "loader_load fetch ps = Inr rest"
    and ds: "ds = \<lparr>page_content = page, metadata = [(''source'', p)]\<rparr> # rest"
    by (auto split: sum.splits)
  show ?case
  proof (cases "d \<in> set rest")
    case True
    with Cons.IH[OF rest] show ?thesis by auto
  next
    case False
    with Cons.prems(2) ds have "d = \<lparr>page_content = page, metadata = [(''source'', p)]\<rparr>" by simp
    with page show ?thesis by simp
  qed
qed

lemma split_documents_source:
  "d \<in> set (split_documents split_text docs) \<Longrightarrow>
   \<exists>d0\<in>set docs. metadata d = metadata d0 \<and> page_content d \<in> set (split_text (page_content d0))"
  by (auto simp: split_documents_def)

lemma retrieve_subset: "set (retrieve rank index q) \<subseteq> set index"
  by (auto simp: retrieve_def)

lemma notebook_retriever_Inr:
  "notebook_retriever fetch split_text embed_all rank = Inr retriever \<Longrightarrow>
   \<exists>docs. loader_load fetch web_paths = Inr docs \<and> retriever = retrieve rank (split_documents split_text docs)"
  by (auto simp: notebook_retriever_def build_retriever_def from_documents_def split: sum.splits option.splits)

lemma retrieved_from_page:
  assumes "notebook_retriever fetch split_text embed_all rank = Inr retriever"
    and "d \<in> set (retriever q)"
  shows "from_page fetch split_text ''https://lilianweng.github.io/posts/2023-06-23-agent/'' d"
proof -
  from assms(1) obtain docs where docs: "loader_load fetch web_paths = Inr docs"
    and r: "retriever = retrieve rank (split_documents split_text docs)"
    using notebook_retriever_Inr by blast
  from assms(2) r have "d \<in> set (split_documents split_text docs)"
    using retrieve_subset by blast
  then obtain d0 where d0: "d0 \<in> set docs" "metadata d = metadata d0"
      "page_content d \<in> set (split_text (page_content d0))"
    using split_documents_source by blast
  from loader_load_source[OF docs d0(1)]
  have "metadata d0 = [(''source'', ''https://lilianweng.github.io/posts/2023-06-23-agent/'')]"
    and "fetch ''https://lilianweng.github.io/posts/2023-06-23-agent/'' = Inr (page_content d0)"
    by (simp_all add: web_paths_def)
  with d0 show ?thesis by (simp add: from_page_def)
qed

lemma context_documents_stream:
  "c \<in> set (rag_chain_stream retriever llm_stream q) \<Longrightarrow> d \<in> set (context_documents c) \<Longrightarrow> d \<in> set (retriever q)"
  by (auto simp: rag_chain_stream_def context_documents_def dict_get_def)

lemma event_documents_retriever:
  "e \<in> set (retriever_events rid q docs) \<Longrightarrow> d \<in> set (event_documents e) \<Longrightarrow> d \<in> set docs"
  by (auto simp: retriever_events_def event_documents_def)

text \<open>
  C8. The loader is given exactly one page. Whenever the indexing cell succeeds, every
  document the retriever returns, hence every document under \<^verbatim>\<open>context\<close> in a streamed
  chunk and every document in the output of a \<^verbatim>\<open>Retriever\<close> event, carries a piece of
  the text of that page and, as its only metadata, the URL of that page as
  \<^verbatim>\<open>source\<close>.
\<close>

theorem documents_carry_source:
  "notebook_retriever fetch split_text embed_all rank = Inr retriever \<Longrightarrow>
     length web_paths = 1
   \<and> (\<forall>d\<in>set (retriever q).
        from_page fetch split_text ''https://lilianweng.github.io/posts/2023-06-23-agent/'' d)
   \<and> (\<forall>c\<in>set (rag_chain_stream retriever llm_stream q). \<forall>d\<in>set (context_documents c).
        from_page fetch split_text ''https://lilianweng.github.io/posts/2023-06-23-agent/'' d)
   \<and> (\<forall>e\<in>set (retriever_events rid q (retriever q)). \<forall>d\<in>set (event_documents e).
        from_page fetch split_text ''https://lilianweng.github.io/posts/2023-06-23-agent/'' d)"
proof -
  assume built: "notebook_retriever fetch split_text embed_all rank = Inr retriever"
  have r: "from_page fetch split_text ''https://lilianweng.github.io/posts/2023-06-23-agent/'' d"
    if "d \<in> set (retriever q)" for d
    using retrieved_from_page[OF built that] .
  have "length web_paths = 1" by (simp add: web_paths_def)
  moreover have "\<forall>d\<in>set (retriever q).
        from_page fetch split_text ''https://lilianweng.github.io/posts/2023-06-23-agent/'' d"
    using r by blast
  moreover have "\<forall>c\<in>set (rag_chain_stream retriever llm_stream q). \<forall>d\<in>set (context_documents c).
        from_page fetch split_text ''https://lilianweng.github.io/posts/2023-06-23-agent/'' d"
    using r context_documents_stream by blast
  moreover have "\<forall>e\<in>set (retriever_events rid q (retriever q)). \<forall>d\<in>set (event_documents e).
        from_page fetch split_text ''https://lilianweng.github.io/posts/2023-06-23-agent/'' d"
    using r event_documents_retriever by blast
  ultimately show ?thesis by blast
qed

theorem documents_carry_source_witness:
  "notebook_retriever (\<lambda>url. Inr ''Task decomposition'') (\<lambda>page. [take 4 page, drop 5 page])
      (\<lambda>docs. None) (\<lambda>q index. [1, 5, 0])
     = Inr (retrieve (\<lambda>q index. [1, 5, 0])
         [\<lparr>page_content = ''Task'', metadata = [(''source'', ''https://lilianweng.github.io/posts/2023-06-23-agent/'')]\<rparr>,
          \<lparr>page_content = ''decomposition'', metadata = [(''source'', ''https://lilianweng.github.io/posts/2023-06-23-agent/'')]\<rparr>])
   \<and> retrieve (\<lambda>q index. [1, 5, 0])
         [\<lparr>page_content = ''Task'', metadata = [(''source'', ''https://lilianweng.github.io/posts/2023-06-23-agent/'')]\<rparr>,
          \<lparr>page_content = ''decomposition'', metadata = [(''source'', ''https://lilianweng.github.io/posts/2023-06-23-agent/'')]\<rparr>]
         ''What is Task Decomposition?''
     = [\<lparr>page_content = ''decomposition'', metadata = [(''source'', ''https://lilianweng.github.io/posts/2023-06-23-agent/'')]\<rparr>,
        \<lparr>page_content = ''Task'', metadata = [(''source'', ''https://lilianweng.github.io/posts/2023-06-23-agent/'')]\<rparr>]
   \<and> from_page (\<lambda>url. Inr ''Task decomposition'') (\<lambda>page. [take 4 page, drop 5 page])
        ''https://lilianweng.github.io/posts/2023-06-23-agent/''
        \<lparr>page_content = ''Task'', metadata = [(''source'', ''https://lilianweng.github.io/posts/2023-06-23-agent/'')]\<rparr>"
  using documents_carry_source[of "\<lambda>url. Inr ''Task decomposition''" "\<lambda>page. [take 4 page, drop 5 page]"
      "\<lambda>docs. None" "\<lambda>q index. [1, 5, 0]"
      "retrieve (\<lambda>q index. [1, 5, 0])
         [\<lparr>page_content = ''Task'', metadata = [(''source'', ''https://lilianweng.github.io/posts/2023-06-23-agent/'')]\<rparr>,
          \<lparr>page_content = ''decomposition'', metadata = [(''source'', ''https://lilianweng.github.io/posts/2023-06-23-agent/'')]\<rparr>]"
      "''What is Task Decomposition?''"]
  by (simp add: notebook_retriever_def build_retriever_def web_paths_def split_documents_def
      from_documents_def retrieve_def from_page_def)

end
